theory Spec2Isabelle
  imports Complex_Main
begin

chapter \<open>Keybinding labels and the Claude Code stream adapter\<close>

text \<open>
  A shallow embedding of three TypeScript modules: \<open>keybindings.ts\<close> (formatting a
  raw key and resolving the label of a command), \<open>vscode-config.ts\<close> (finding and
  reading the user's keybindings file) and \<open>claude-code.ts\<close> (detecting the provider
  from the local settings and turning the messages of the command-line process into
  stream chunks). Asynchronous functions are modelled by their results; a rejected
  promise is an error value. Everything a function reads from its host (the editor,
  the process environment, the file system, library parsers) is an argument.
\<close>

section \<open>JavaScript values used by the sources\<close>

text \<open>
  Strings are character lists. The case functions cover the ASCII letters (every
  token the sources' tables name is ASCII); a character outside \<open>A..Z\<close>/\<open>a..z\<close>
  is left as it is.
\<close>

definition lower_char :: "char \<Rightarrow> char" where
  "lower_char c =
     (case map_of (zip ''ABCDEFGHIJKLMNOPQRSTUVWXYZ'' ''abcdefghijklmnopqrstuvwxyz'') c of
        Some d \<Rightarrow> d
      | None \<Rightarrow> c)"

definition upper_char :: "char \<Rightarrow> char" where
  "upper_char c =
     (case map_of (zip ''abcdefghijklmnopqrstuvwxyz'' ''ABCDEFGHIJKLMNOPQRSTUVWXYZ'') c of
        Some d \<Rightarrow> d
      | None \<Rightarrow> c)"

definition toLowerCase :: "string \<Rightarrow> string" where
  "toLowerCase s = map lower_char s"

definition toUpperCase :: "string \<Rightarrow> string" where
  "toUpperCase s = map upper_char s"

definition is_digit :: "char \<Rightarrow> bool" where
  "is_digit c = (c \<in> set ''0123456789'')"

definition is_space :: "char \<Rightarrow> bool" where
  \<comment> \<open>the ASCII white space and line terminators that \<open>String.prototype.trim\<close> strips\<close>
  "is_space c = (c \<in> set [CHR '' '', CHR 0x09, CHR 0x0A, CHR 0x0B, CHR 0x0C, CHR 0x0D])"

definition trim :: "string \<Rightarrow> string" where
  "trim s = rev (dropWhile is_space (rev (dropWhile is_space s)))"

text \<open>\<open>s.split(sep)\<close> for a one-character separator: empty pieces are kept.\<close>

fun split_on :: "char \<Rightarrow> string \<Rightarrow> string list" where
  "split_on sep [] = [[]]"
| "split_on sep (c # cs) =
     (if c = sep then [] # split_on sep cs
      else (case split_on sep cs of
              [] \<Rightarrow> [[c]]
            | w # ws \<Rightarrow> (c # w) # ws))"

text \<open>\<open>xs.join(sep)\<close> on an array of strings.\<close>

fun join :: "string \<Rightarrow> string list \<Rightarrow> string" where
  "join sep [] = []"
| "join sep [x] = x"
| "join sep (x # y # ys) = x @ sep @ join sep (y # ys)"

definition startsWith :: "string \<Rightarrow> string \<Rightarrow> bool" where
  "startsWith s p = (take (length p) s = p)"

text \<open>\<open>s.includes(sub)\<close>: \<open>sub\<close> occurs somewhere in \<open>s\<close>.\<close>

fun str_includes :: "string \<Rightarrow> string \<Rightarrow> bool" where
  "str_includes [] sub = (sub = [])"
| "str_includes (c # cs) sub = (startsWith (c # cs) sub \<or> str_includes cs sub)"

text \<open>
  An object literal inherits from \<open>Object.prototype\<close>. The operator \<open>in\<close> and a
  property read both follow the prototype chain, so a key that is not written in the
  literal is still found when \<open>Object.prototype\<close> has a member of that name.
\<close>

definition objectPrototypeKeys :: "string list" where
  "objectPrototypeKeys =
     [''constructor'', ''__defineGetter__'', ''__defineSetter__'', ''hasOwnProperty'',
      ''__lookupGetter__'', ''__lookupSetter__'', ''isPrototypeOf'',
      ''propertyIsEnumerable'', ''toString'', ''valueOf'', ''__proto__'',
      ''toLocaleString'']"

datatype jsval =
    JString string
  | JInherited string   \<comment> \<open>the member of \<open>Object.prototype\<close> read under that name\<close>
  | JUndefined

definition js_in :: "string \<Rightarrow> (string \<times> 'v) list \<Rightarrow> bool" where
  "js_in k obj = (map_of obj k \<noteq> None \<or> k \<in> set objectPrototypeKeys)"

definition js_get :: "(string \<times> string) list \<Rightarrow> string \<Rightarrow> jsval" where
  "js_get obj k =
     (case map_of obj k of
        Some v \<Rightarrow> JString v
      | None \<Rightarrow> if k \<in> set objectPrototypeKeys then JInherited k else JUndefined)"

text \<open>
  The conversion to a string that \<open>Array.prototype.join\<close> applies to each element:
  \<open>undefined\<close> gives the empty string, \<open>Object.prototype\<close> itself (read as
  \<open>__proto__\<close>) gives \<open>[object Object]\<close>, and a built-in function prints as V8
  prints native functions (\<open>constructor\<close> is the function \<open>Object\<close>).
\<close>

definition display :: "jsval \<Rightarrow> string" where
  "display v =
     (case v of
        JString s \<Rightarrow> s
      | JUndefined \<Rightarrow> []
      | JInherited k \<Rightarrow>
          if k = ''__proto__'' then ''[object Object]''
          else ''function '' @ (if k = ''constructor'' then ''Object'' else k)
                 @ ''() { [native code] }'')"


section \<open>keybindings.ts: formatting a raw key\<close>

definition macModifiers :: "(string \<times> string) list" where
  "macModifiers =
     [(''cmd'', ''Cmd''), (''meta'', ''Cmd''), (''ctrl'', ''Ctrl''), (''alt'', ''Option''),
      (''option'', ''Option''), (''shift'', ''Shift'')]"

definition winLinuxModifiers :: "(string \<times> string) list" where
  "winLinuxModifiers =
     [(''cmd'', ''Ctrl''), (''meta'', ''Win''), (''ctrl'', ''Ctrl''), (''alt'', ''Alt''),
      (''shift'', ''Shift'')]"

definition specialKeys :: "(string \<times> string) list" where
  "specialKeys =
     [(''left'', ''Left''), (''right'', ''Right''), (''up'', ''Up''), (''down'', ''Down''),
      (''home'', ''Home''), (''end'', ''End''), (''pageup'', ''PageUp''),
      (''pagedown'', ''PageDown''), (''insert'', ''Insert''), (''delete'', ''Delete''),
      (''backspace'', ''Backspace''), (''tab'', ''Tab''), (''enter'', ''Enter''),
      (''escape'', ''Escape''), (''space'', ''Space'')]"

text \<open>The test \<open>/^f\d{1,2}$/\<close>: the letter f and then one or two digits, nothing else.\<close>

definition is_function_key :: "string \<Rightarrow> bool" where
  "is_function_key s =
     (case s of
        [] \<Rightarrow> False
      | c # ds \<Rightarrow> c = CHR ''f'' \<and> (length ds = 1 \<or> length ds = 2) \<and> list_all is_digit ds)"

text \<open>
  \<open>normalizeKeyToken(token, platform)\<close>. The two table tests use \<open>in\<close>, and the value
  returned there is whatever the property read gives.
\<close>

definition normalizeKeyToken :: "string \<Rightarrow> string \<Rightarrow> jsval" where
  "normalizeKeyToken token platform =
     (let normalized = toLowerCase token;
          isMac = (platform = ''darwin'');
          modifierMap = (if isMac then macModifiers else winLinuxModifiers)
      in if js_in normalized modifierMap then js_get modifierMap normalized
         else if js_in normalized specialKeys then js_get specialKeys normalized
         else if is_function_key normalized then JString (toUpperCase normalized)
         else if length normalized = 1 then JString (toUpperCase normalized)
         else JString (toUpperCase (take 1 normalized) @ drop 1 normalized))"

definition formatChord :: "string \<Rightarrow> string \<Rightarrow> string" where
  \<comment> \<open>the callback of \<open>chords.map\<close> in \<open>prettyPrintKey\<close>\<close>
  "formatChord platform chord =
     join ''+'' (map display (map (\<lambda>part. normalizeKeyToken part platform)
                                  (split_on CHR ''+'' chord)))"

definition prettyPrintKey :: "string \<Rightarrow> string \<Rightarrow> string" where
  "prettyPrintKey rawKey platform =
     (let chords = filter (\<lambda>s. s \<noteq> []) (split_on CHR '' '' rawKey);
          formattedChords = map (formatChord platform) chords
      in if length formattedChords > 1 then join '', '' formattedChords
         else (case formattedChords of
                 [] \<Rightarrow> []
               | c # _ \<Rightarrow> c))"

text \<open>
  \<open>getPlatformKeybinding\<close> and \<open>getPlatformModifier\<close> read \<open>process.platform\<close>;
  the model takes it as an argument.
\<close>

definition getPlatformKeybinding :: "string \<Rightarrow> string \<Rightarrow> string" where
  "getPlatformKeybinding platform baseKeybinding = prettyPrintKey baseKeybinding platform"

definition getPlatformModifier :: "string \<Rightarrow> string" where
  "getPlatformModifier platform = (if platform = ''darwin'' then ''Cmd'' else ''Ctrl'')"


section \<open>vscode-config.ts: finding and reading the user's keybindings\<close>

text \<open>
  A thrown exception or a rejected promise is a value of \<open>js_error\<close>, and a function
  that can throw returns a sum with the error on the left.
\<close>

datatype js_error =
    Error string       \<comment> \<open>\<open>new Error(message)\<close>\<close>
  | TypeError string   \<comment> \<open>raised by the runtime; the string says where\<close>
  | FsError string     \<comment> \<open>a rejected file-system call on that path\<close>

record KeybindingEntry =
  key :: "string option"
  command :: "string option"
  when_clause :: "string option"

datatype UIKind = Desktop | Web

record Dirent =
  name :: string
  isDirectory :: bool

record Stats =
  isFile :: bool
  mtimeMs :: real

text \<open>
  What \<open>JSON5.parse\<close> returned: an array (of rules, as \<open>KeybindingEntry\<close> declares
  them) or any other value.
\<close>

datatype json5 = JArray "KeybindingEntry list" | JOther

text \<open>
  Everything the module reads from outside: the editor's \<open>vscode.env\<close>, the process,
  and the file system. \<open>path.join\<close>, the file-system calls and \<open>JSON5.parse\<close> are
  library functions and stand as fields; \<open>None\<close> is a rejected call (a thrown
  parse). \<open>enumerateProfileKeybindings\<close> awaits \<open>fs.stat\<close> in two separate passes,
  and the file system may change between them: \<open>stat_scan\<close> answers the first pass
  and \<open>stat_sort\<close> the second.
\<close>

record Host =
  appName :: string
  remoteName :: "string option"
  uiKind :: UIKind
  platform :: string
  process_env :: "string \<Rightarrow> string option"
  homedir :: string
  path_join :: "string list \<Rightarrow> string"
  readdir :: "string \<Rightarrow> Dirent list option"
  stat_scan :: "string \<Rightarrow> Stats option"
  stat_sort :: "string \<Rightarrow> Stats option"
  readFile :: "string \<Rightarrow> string option"
  JSON5_parse :: "string \<Rightarrow> json5 option"

definition truthy :: "string option \<Rightarrow> bool" where
  \<comment> \<open>a string or \<open>undefined\<close> in a condition: \<open>undefined\<close> and \<open>""\<close> are false\<close>
  "truthy v = (case v of None \<Rightarrow> False | Some s \<Rightarrow> s \<noteq> [])"

definition canReadLocalKeybindings :: "Host \<Rightarrow> bool" where
  "canReadLocalKeybindings h = (\<not> truthy (remoteName h) \<and> uiKind h = Desktop)"

definition productDirName :: "Host \<Rightarrow> string" where
  "productDirName h =
     (let n = toLowerCase (appName h)
      in if str_includes n ''insiders'' then ''Code - Insiders''
         else if str_includes n ''visual studio code'' then ''Code''
         else if str_includes n ''vscodium'' then ''VSCodium''
         else if str_includes n ''cursor'' then ''Cursor''
         else if str_includes n ''windsurf'' then ''Windsurf''
         else if str_includes n ''oss'' then ''Code - OSS''
         else ''Code'')"

definition or_else :: "string option \<Rightarrow> string \<Rightarrow> string" where
  \<comment> \<open>\<open>v || d\<close> for a string or \<open>undefined\<close>\<close>
  "or_else v d = (case v of None \<Rightarrow> d | Some s \<Rightarrow> if s = [] then d else s)"

definition getUserDataBaseDir :: "Host \<Rightarrow> string" where
  "getUserDataBaseDir h =
     (let portable = process_env h ''VSCODE_PORTABLE''
      in if truthy portable then path_join h [or_else portable [], ''user-data'']
         else
           let home = homedir h;
               product = productDirName h
           in if platform h = ''win32'' then
                let appdata = or_else (process_env h ''APPDATA'')
                                (path_join h [home, ''AppData'', ''Roaming''])
                in path_join h [appdata, product]
              else if platform h = ''darwin'' then
                path_join h [home, ''Library'', ''Application Support'', product]
              else
                let xdg = or_else (process_env h ''XDG_CONFIG_HOME'')
                            (path_join h [home, ''.config''])
                in path_join h [xdg, product])"

text \<open>
  \<open>enumerateProfileKeybindings(userDir)\<close>. The read of the profiles directory and the
  first \<open>fs.stat\<close> of each candidate stand inside \<open>try\<close> blocks; the second
  \<open>fs.stat\<close>, under \<open>Promise.all\<close>, does not, so a rejection there rejects the
  whole call. \<open>Array.prototype.sort\<close> is stable, as \<open>sort_key\<close> is.
\<close>

definition profileCandidates :: "Host \<Rightarrow> string \<Rightarrow> string list" where
  "profileCandidates h userDir =
     (let profilesDir = path_join h [userDir, ''profiles'']
      in case readdir h profilesDir of
           None \<Rightarrow> []
         | Some entries \<Rightarrow>
             map (\<lambda>e. path_join h [profilesDir, name e, ''keybindings.json''])
                 (filter isDirectory entries))"

fun stat_all :: "Host \<Rightarrow> string list \<Rightarrow> js_error + (string \<times> Stats) list" where
  "stat_all h [] = Inr []"
| "stat_all h (p # ps) =
     (case stat_sort h p of
        None \<Rightarrow> Inl (FsError p)
      | Some st \<Rightarrow>
          (case stat_all h ps of
             Inl e \<Rightarrow> Inl e
           | Inr rest \<Rightarrow> Inr ((p, st) # rest)))"

definition enumerateProfileKeybindings :: "Host \<Rightarrow> string \<Rightarrow> js_error + string list" where
  "enumerateProfileKeybindings h userDir =
     (let candidates = path_join h [userDir, ''keybindings.json''] # profileCandidates h userDir;
          existing = filter (\<lambda>p. case stat_scan h p of
                                    None \<Rightarrow> False
                                  | Some st \<Rightarrow> isFile st) candidates
      in if length existing > 1 then
           (case stat_all h existing of
              Inl e \<Rightarrow> Inl e
            | Inr stats \<Rightarrow> Inr (map fst (sort_key (\<lambda>s. - mtimeMs (snd s)) stats)))
         else Inr existing)"

definition getKeybindingsCandidates :: "Host \<Rightarrow> js_error + string list" where
  "getKeybindingsCandidates h =
     (if \<not> truthy (remoteName h) \<and>
         (process_env h ''CODE_SERVER'' = Some ''true'' \<or> truthy (process_env h ''VSCODE_PROXY_URI''))
      then
        let base = path_join h
                     [or_else (process_env h ''XDG_DATA_HOME'')
                        (path_join h [homedir h, ''.local'', ''share'']),
                      ''code-server''];
            user = path_join h [base, ''User'']
        in enumerateProfileKeybindings h user
      else
        let baseDir = getUserDataBaseDir h;
            userDir = path_join h [baseDir, ''User'']
        in enumerateProfileKeybindings h userDir)"

text \<open>\<open>readJSON5File\<close>: \<open>None\<close> is the \<open>null\<close> its \<open>catch\<close> returns.\<close>

definition readJSON5File :: "Host \<Rightarrow> string \<Rightarrow> json5 option" where
  "readJSON5File h filePath =
     (case readFile h filePath of
        None \<Rightarrow> None
      | Some buf \<Rightarrow> JSON5_parse h buf)"

fun firstRules :: "Host \<Rightarrow> string list \<Rightarrow> KeybindingEntry list" where
  \<comment> \<open>the \<open>for\<close> loop of \<open>readUserKeybindings\<close> with its final \<open>return []\<close>\<close>
  "firstRules h [] = []"
| "firstRules h (filePath # rest) =
     (case readJSON5File h filePath of
        Some (JArray rules) \<Rightarrow> rules
      | _ \<Rightarrow> firstRules h rest)"

definition readUserKeybindings :: "Host \<Rightarrow> js_error + KeybindingEntry list" where
  "readUserKeybindings h =
     (if \<not> canReadLocalKeybindings h then Inr []
      else case getKeybindingsCandidates h of
             Inl e \<Rightarrow> Inl e
           | Inr candidates \<Rightarrow> Inr (firstRules h candidates))"

record Contributes =
  keybindings :: "KeybindingEntry list option"

record PackageJSON =
  contributes :: "Contributes option"

record ExtensionContext =
  packageJSON :: "PackageJSON option"

definition getDefaultKeybindings :: "ExtensionContext \<Rightarrow> KeybindingEntry list" where
  "getDefaultKeybindings context =
     (case packageJSON context of
        None \<Rightarrow> []
      | Some pj \<Rightarrow>
          (case contributes pj of
             None \<Rightarrow> []
           | Some c \<Rightarrow> (case keybindings c of None \<Rightarrow> [] | Some ks \<Rightarrow> ks)))"


section \<open>keybindings.ts: resolving a command's label\<close>

definition findFirstBindingForCommand ::
    "KeybindingEntry list \<Rightarrow> string \<Rightarrow> KeybindingEntry option" where
  "findFirstBindingForCommand entries commandId =
     find (\<lambda>entry. command entry = Some commandId \<and> truthy (key entry)
                    \<and> truthy (map_option trim (key entry))) entries"

text \<open>
  \<open>getCurrentKeybindingLabel\<close> returns the label (\<open>None\<close> is \<open>undefined\<close>) and what
  it wrote with \<open>console.warn\<close>: the command id and the error caught. The platform is
  \<open>process.platform\<close>.
\<close>

definition rawKeyOf :: "KeybindingEntry option \<Rightarrow> KeybindingEntry option \<Rightarrow> string option" where
  \<comment> \<open>\<open>(userBinding?.key ?? defaultBinding?.key)?.trim()\<close>\<close>
  "rawKeyOf userBinding defaultBinding =
     map_option trim
       (case (case userBinding of None \<Rightarrow> None | Some u \<Rightarrow> key u) of
          Some k \<Rightarrow> Some k
        | None \<Rightarrow> (case defaultBinding of None \<Rightarrow> None | Some d \<Rightarrow> key d))"

definition getCurrentKeybindingLabel ::
    "Host \<Rightarrow> ExtensionContext \<Rightarrow> string \<Rightarrow> string option \<times> (string \<times> js_error) list" where
  "getCurrentKeybindingLabel h context commandId =
     (case readUserKeybindings h of
        Inl error \<Rightarrow> (None, [(commandId, error)])
      | Inr userKeybindings \<Rightarrow>
          let userBinding = findFirstBindingForCommand userKeybindings commandId;
              contributedKeybindings = getDefaultKeybindings context;
              defaultBinding = find (\<lambda>k. command k = Some commandId) contributedKeybindings;
              rawKey = rawKeyOf userBinding defaultBinding
          in if \<not> truthy rawKey then (None, [])
             else (Some (prettyPrintKey (or_else rawKey []) (platform h)), []))"

text \<open>
  \<open>getKeybindingLabels\<close> fills a plain object. Its keys are the map's domain; a key
  whose value is \<open>undefined\<close> is a key all the same. An assignment to the key
  \<open>__proto__\<close> reaches the setter that \<open>Object.prototype\<close> provides, which ignores a
  string and \<open>undefined\<close>: no property is created.
\<close>

definition obj_set ::
    "(string \<rightharpoonup> string option) \<Rightarrow> string \<Rightarrow> string option \<Rightarrow> (string \<rightharpoonup> string option)" where
  "obj_set obj k v = (if k = ''__proto__'' then obj else obj(k \<mapsto> v))"

fun labelsLoop ::
    "Host \<Rightarrow> ExtensionContext \<Rightarrow> string list
      \<Rightarrow> (string \<rightharpoonup> string option) \<times> (string \<times> js_error) list
      \<Rightarrow> (string \<rightharpoonup> string option) \<times> (string \<times> js_error) list" where
  "labelsLoop h context [] acc = acc"
| "labelsLoop h context (commandId # rest) acc =
     (let r = getCurrentKeybindingLabel h context commandId
      in labelsLoop h context rest (obj_set (fst acc) commandId (fst r), snd acc @ snd r))"

definition getKeybindingLabels ::
    "Host \<Rightarrow> ExtensionContext \<Rightarrow> string list
      \<Rightarrow> (string \<rightharpoonup> string option) \<times> (string \<times> js_error) list" where
  "getKeybindingLabels h context commandIds = labelsLoop h context commandIds (Map.empty, [])"


section \<open>The spec's wording of the default lookup\<close>

text \<open>
  The behaviour when no override is found, in the words of the spec (4.1, steps 3 to 5):
  the first declared default whose command equals the id decides, and without a
  non-empty key the result is \<open>undefined\<close>.
\<close>

definition noOverrideLabel :: "ExtensionContext \<Rightarrow> string \<Rightarrow> string \<Rightarrow> string option" where
  "noOverrideLabel context plat commandId =
     (case find (\<lambda>k. command k = Some commandId) (getDefaultKeybindings context) of
        None \<Rightarrow> None
      | Some d \<Rightarrow>
          (case key d of
             None \<Rightarrow> None
           | Some k \<Rightarrow> if trim k = [] then None else Some (prettyPrintKey (trim k) plat)))"


section \<open>claude-code.ts: configuration, provider and model\<close>

text \<open>
  \<open>ModelInfo\<close> and the four model tables are declared in the package
  \<open>@roo-code/types\<close>, which is not among the sources: the tables and the default
  model id are parameters (\<open>ModelTables\<close>), each table an ordered list of its own
  keys. \<open>ModelInfo\<close> has the fields the tests of this repository read, each optional,
  so that the empty object is a value of the type.
\<close>

record ModelInfo =
  maxTokens :: "int option"
  contextWindow :: "int option"
  supportsImages :: "bool option"
  supportsPromptCache :: "bool option"
  inputPrice :: "real option"
  outputPrice :: "real option"

record ModelTables =
  claudeCodeModels :: "(string \<times> ModelInfo) list"
  claudeCodeDefaultModelId :: string
  internationalZAiModels :: "(string \<times> ModelInfo) list"
  qwenCodeModels :: "(string \<times> ModelInfo) list"
  deepSeekModels :: "(string \<times> ModelInfo) list"

text \<open>
  The settings file, as far as the handler reads it: an object with an optional
  \<open>env\<close> object holding two optional strings.
\<close>

record ClaudeEnv =
  ANTHROPIC_BASE_URL :: "string option"
  ANTHROPIC_MODEL :: "string option"

record ClaudeConfig =
  env :: "ClaudeEnv option"

record ApiHandlerOptions =
  claudeCodePath :: "string option"
  apiModelId :: "string option"
  claudeCodeMaxOutputTokens :: "int option"

record ModelSelection =
  model_id :: "string option"   \<comment> \<open>the field \<open>id\<close>; \<open>None\<close> is \<open>undefined\<close>\<close>
  model_info :: ModelInfo       \<comment> \<open>the field \<open>info\<close>\<close>

record ProviderInfo =
  provider :: string
  models :: "(string \<times> ModelInfo) list"

record Handler =
  options :: ApiHandlerOptions
  cachedConfig :: "ClaudeConfig option"
  cachedModelInfo :: "ModelSelection option"

text \<open>
  The five candidate files in the order \<open>readClaudeCodeConfig\<close> tries them. What
  reading and parsing one of them gives is a parameter: \<open>None\<close> when
  \<open>fs.readFile\<close> or \<open>JSON.parse\<close> throws.
\<close>

datatype ConfigPath =
    UserSettings | UserLocalSettings | ProjectSettings | ProjectLocalSettings | UserLegacyConfig

definition possibleConfigPaths :: "ConfigPath list" where
  "possibleConfigPaths =
     [UserSettings, UserLocalSettings, ProjectSettings, ProjectLocalSettings, UserLegacyConfig]"

fun firstConfig :: "(ConfigPath \<Rightarrow> ClaudeConfig option) \<Rightarrow> ConfigPath list \<Rightarrow> ClaudeConfig option" where
  "firstConfig files [] = None"
| "firstConfig files (configPath # rest) =
     (case files configPath of
        Some config \<Rightarrow> Some config
      | None \<Rightarrow> firstConfig files rest)"

definition readClaudeCodeConfig ::
    "(ConfigPath \<Rightarrow> ClaudeConfig option) \<Rightarrow> Handler \<Rightarrow> ClaudeConfig option \<times> Handler" where
  "readClaudeCodeConfig files h =
     (case cachedConfig h of
        Some config \<Rightarrow> (Some config, h)
      | None \<Rightarrow>
          (case firstConfig files possibleConfigPaths of
             Some config \<Rightarrow> (Some config, h\<lparr>cachedConfig := Some config\<rparr>)
           | None \<Rightarrow> (None, h)))"

definition detectProviderFromConfig ::
    "ModelTables \<Rightarrow> (ConfigPath \<Rightarrow> ClaudeConfig option) \<Rightarrow> Handler
      \<Rightarrow> ProviderInfo option \<times> Handler" where
  "detectProviderFromConfig T files h =
     (let (config, h') = readClaudeCodeConfig files h
      in ((case config of
            None \<Rightarrow> None
          | Some c \<Rightarrow>
              (case env c of
                 None \<Rightarrow> None
               | Some e \<Rightarrow>
                   let baseUrl = ANTHROPIC_BASE_URL e
                   in if \<not> truthy baseUrl then None
                      else
                        let url = or_else baseUrl []
                        in if str_includes url ''z.ai'' then
                             Some \<lparr>provider = ''zai'',
                                   models = filter (\<lambda>m. fst m \<noteq> ''glm-4.5-flash'')
                                              (internationalZAiModels T)\<rparr>
                           else if str_includes url ''dashscope.aliyuncs.com''
                                   \<or> str_includes url ''aliyuncs.com'' then
                             Some \<lparr>provider = ''qwen-code'', models = qwenCodeModels T\<rparr>
                           else if str_includes url ''deepseek.com''
                                   \<or> str_includes url ''api.deepseek.com'' then
                             Some \<lparr>provider = ''deepseek'', models = deepSeekModels T\<rparr>
                           else None)),
          h'))"










text \<open>
  The constructor stores the options and starts \<open>initializeModelDetection\<close>, which
  first awaits a file read: the new handler has both caches empty, and the state once
  the detection has finished is \<open>initializeModelDetection T files (newHandler opts)\<close>.
\<close>

definition newHandler :: "ApiHandlerOptions \<Rightarrow> Handler" where
  "newHandler opts = \<lparr>options = opts, cachedConfig = None, cachedModelInfo = None\<rparr>"

definition getAvailableModels ::
    "ModelTables \<Rightarrow> (ConfigPath \<Rightarrow> ClaudeConfig option) \<Rightarrow> string option \<Rightarrow> ProviderInfo" where
  "getAvailableModels T files path =
     (let tempHandler = newHandler \<lparr>claudeCodePath = path, apiModelId = None,
                                    claudeCodeMaxOutputTokens = None\<rparr>
      in case fst (detectProviderFromConfig T files tempHandler) of
           Some p \<Rightarrow>
             if length (models p) > 0 then p
             else \<lparr>provider = ''claude-code'', models = claudeCodeModels T\<rparr>
         | None \<Rightarrow> \<lparr>provider = ''claude-code'', models = claudeCodeModels T\<rparr>)"





section \<open>claude-code.ts: the stream of createMessage\<close>

text \<open>
  The messages \<open>runClaudeCode\<close> yields, as \<open>createMessage\<close> tells them apart: a
  plain string; the \<open>system\<close>/\<open>init\<close> message with its \<open>apiKeySource\<close>; an
  \<open>assistant\<close> chunk with its message; a \<open>result\<close> chunk that has a \<open>result\<close>
  property, with its \<open>total_cost_usd\<close>; and any other chunk, which the loop passes
  over. Token counts are integers and the cost is a number that is stored, never
  computed with.
\<close>

datatype ContentBlock =
    TextBlock string
  | ThinkingBlock "string option"
  | RedactedThinkingBlock
  | ToolUseBlock string        \<comment> \<open>the block as \<open>JSON.stringify\<close> prints it\<close>
  | OtherBlock

record MessageUsage =
  input_tokens :: int
  output_tokens :: int
  cache_read_input_tokens :: "int option"
  cache_creation_input_tokens :: "int option"

record AssistantMessage =
  stop_reason :: "string option"   \<comment> \<open>\<open>None\<close> is \<open>null\<close>\<close>
  content :: "ContentBlock list"
  usage :: MessageUsage

datatype ClaudeCodeMessage =
    StringChunk string
  | SystemInit string
  | Assistant AssistantMessage
  | ResultMessage real
  | OtherMessage

record ApiStreamUsageChunk =
  inputTokens :: int
  outputTokens :: int
  cacheReadTokens :: int
  cacheWriteTokens :: int
  totalCost :: "real option"

datatype ApiStreamChunk =
    TextChunk string
  | ReasoningChunk string
  | UsageChunk ApiStreamUsageChunk

text \<open>
  A value \<open>JSON.parse\<close> returns. \<open>JSON.parse\<close> and the translated hint
  \<open>t("common:errors.claudeCode.apiKeyModelPlanMismatch")\<close> come from outside and are
  parameters.
\<close>

datatype json =
    JNull
  | JBool bool
  | JNum real
  | JStr string
  | JArr "json list"
  | JObj "(string \<times> json) list"

record Deps =
  JSON_parse :: "string \<Rightarrow> json option"   \<comment> \<open>\<open>None\<close> when it throws\<close>
  apiKeyModelPlanMismatch :: string

definition attemptParse :: "Deps \<Rightarrow> string \<Rightarrow> json option" where
  \<comment> \<open>\<open>None\<close> is the \<open>null\<close> of its \<open>catch\<close>\<close>
  "attemptParse d str = JSON_parse d str"

definition js_truthy :: "json \<Rightarrow> bool" where
  "js_truthy v =
     (case v of
        JNull \<Rightarrow> False
      | JBool b \<Rightarrow> b
      | JNum n \<Rightarrow> n \<noteq> 0
      | JStr s \<Rightarrow> s \<noteq> []
      | JArr _ \<Rightarrow> True
      | JObj _ \<Rightarrow> True)"

definition get_prop :: "json \<Rightarrow> string \<Rightarrow> json option" where
  \<comment> \<open>reading the property \<open>error\<close> or \<open>message\<close>, which only an object can have;
      \<open>None\<close> is \<open>undefined\<close>\<close>
  "get_prop v k = (case v of JObj kvs \<Rightarrow> map_of kvs k | _ \<Rightarrow> None)"

text \<open>
  \<open>error.error.message.includes(needle)\<close>: reading a property of \<open>undefined\<close> or
  \<open>null\<close> throws a TypeError, and so does calling \<open>includes\<close> on a value that has no
  such method (a string and an array have one).
\<close>

definition messageIncludes :: "json \<Rightarrow> string \<Rightarrow> js_error + bool" where
  "messageIncludes error needle =
     (case get_prop error ''error'' of
        None \<Rightarrow> Inl (TypeError ''error.error is undefined'')
      | Some JNull \<Rightarrow> Inl (TypeError ''error.error is null'')
      | Some inner \<Rightarrow>
          (case get_prop inner ''message'' of
             None \<Rightarrow> Inl (TypeError ''error.error.message is undefined'')
           | Some JNull \<Rightarrow> Inl (TypeError ''error.error.message is null'')
           | Some (JStr s) \<Rightarrow> Inr (str_includes s needle)
           | Some (JArr xs) \<Rightarrow> Inr (JStr needle \<in> set xs)
           | Some _ \<Rightarrow> Inl (TypeError ''error.error.message.includes is not a function'')))"

definition indexOf :: "string \<Rightarrow> char \<Rightarrow> int" where
  "indexOf s c = (if c \<in> set s then int (length (takeWhile (\<lambda>x. x \<noteq> c) s)) else - 1)"

definition slice_from :: "string \<Rightarrow> int \<Rightarrow> string" where
  \<comment> \<open>\<open>s.slice(i)\<close>: a negative index is counted from the end\<close>
  "slice_from s i = (if 0 \<le> i then drop (nat i) s else drop (length s - nat (- i)) s)"

definition apiError :: "Deps \<Rightarrow> string \<Rightarrow> js_error" where
  \<comment> \<open>what the branch \<open>if (isError)\<close> throws for the text of the first block\<close>
  "apiError d text =
     (let errorMessageStart = indexOf text CHR ''{'';
          errorMessage = slice_from text errorMessageStart
      in case attemptParse d errorMessage of
           None \<Rightarrow> Error text
         | Some error \<Rightarrow>
             if \<not> js_truthy error then Error text
             else (case messageIncludes error ''Invalid model name'' of
                     Inl e \<Rightarrow> e
                   | Inr True \<Rightarrow>
                       Error (text @ [CHR 0x0A, CHR 0x0A] @ apiKeyModelPlanMismatch d)
                   | Inr False \<Rightarrow> Error errorMessage))"

definition checkApiError :: "Deps \<Rightarrow> AssistantMessage \<Rightarrow> js_error option" where
  \<comment> \<open>the block \<open>if (message.stop_reason !== null)\<close>: \<open>Some\<close> is what it throws\<close>
  "checkApiError d message =
     (if stop_reason message \<noteq> None then
        (case content message of
           [] \<Rightarrow> Some (TypeError ''message.content[0] is undefined'')
         | TextBlock text # _ \<Rightarrow>
             if startsWith text ''API Error'' then Some (apiError d text) else None
         | _ \<Rightarrow> None)
      else None)"

fun blockChunks :: "ContentBlock \<Rightarrow> ApiStreamChunk list" where
  "blockChunks (TextBlock text) = [TextChunk text]"
| "blockChunks (ThinkingBlock thinking) = [ReasoningChunk (or_else thinking [])]"
| "blockChunks RedactedThinkingBlock = [ReasoningChunk ''[Redacted thinking block]'']"
| "blockChunks (ToolUseBlock printed) = []"
| "blockChunks OtherBlock = []"

fun blockErrors :: "ContentBlock \<Rightarrow> string list" where
  \<comment> \<open>what the block writes with \<open>console.error\<close>\<close>
  "blockErrors (ToolUseBlock printed) = [''tool_use is not supported yet. Received: '' @ printed]"
| "blockErrors _ = []"

definition num_or_zero :: "int option \<Rightarrow> int" where
  "num_or_zero v = (case v of None \<Rightarrow> 0 | Some n \<Rightarrow> n)"

definition addUsage :: "ApiStreamUsageChunk \<Rightarrow> MessageUsage \<Rightarrow> ApiStreamUsageChunk" where
  "addUsage u m =
     u\<lparr>inputTokens := inputTokens u + input_tokens m,
       outputTokens := outputTokens u + output_tokens m,
       cacheReadTokens := cacheReadTokens u + num_or_zero (cache_read_input_tokens m),
       cacheWriteTokens := cacheWriteTokens u + num_or_zero (cache_creation_input_tokens m)\<rparr>"

text \<open>
  The state of the loop, and what a consumer that reads the stream to its end has
  seen: the chunks yielded in order, the lines written with \<open>console.error\<close>, and the
  error the iteration rejected with (\<open>None\<close> when the stream ended normally). A
  yielded usage chunk is recorded with the values it has when it is yielded.
\<close>

record StreamState =
  usage_acc :: ApiStreamUsageChunk   \<comment> \<open>the variable \<open>usage\<close>\<close>
  isPaidUsage :: bool

record StreamRun =
  yielded :: "ApiStreamChunk list"
  logged :: "string list"
  thrown :: "js_error option"

definition emit :: "ApiStreamChunk list \<Rightarrow> string list \<Rightarrow> StreamRun \<Rightarrow> StreamRun" where
  "emit chunks errors r = r\<lparr>yielded := chunks @ yielded r, logged := errors @ logged r\<rparr>"

fun consume :: "Deps \<Rightarrow> StreamState \<Rightarrow> ClaudeCodeMessage list \<Rightarrow> StreamRun" where
  "consume d st [] = \<lparr>yielded = [], logged = [], thrown = None\<rparr>"
| "consume d st (StringChunk s # rest) = emit [TextChunk s] [] (consume d st rest)"
| "consume d st (SystemInit apiKeySource # rest) =
     consume d (st\<lparr>isPaidUsage := (apiKeySource \<noteq> ''none'')\<rparr>) rest"
| "consume d st (Assistant message # rest) =
     (case checkApiError d message of
        Some e \<Rightarrow> \<lparr>yielded = [], logged = [], thrown = Some e\<rparr>
      | None \<Rightarrow>
          emit (concat (map blockChunks (content message)))
               (concat (map blockErrors (content message)))
               (consume d (st\<lparr>usage_acc := addUsage (usage_acc st) (usage message)\<rparr>) rest))"
| "consume d st (ResultMessage total_cost_usd # rest) =
     (let u = (usage_acc st)\<lparr>totalCost := Some (if isPaidUsage st then total_cost_usd else 0)\<rparr>
      in emit [UsageChunk u] [] (consume d (st\<lparr>usage_acc := u\<rparr>) rest))"
| "consume d st (OtherMessage # rest) = consume d st rest"

definition initialState :: StreamState where
  "initialState =
     \<lparr>usage_acc = \<lparr>inputTokens = 0, outputTokens = 0, cacheReadTokens = 0,
                   cacheWriteTokens = 0, totalCost = None\<rparr>,
      isPaidUsage = True\<rparr>"

text \<open>
  \<open>createMessage\<close>, from the call of \<open>runClaudeCode\<close> on: \<open>claudeProcess\<close> is the
  finite sequence that call yields. What precedes the loop only chooses the
  arguments of \<open>runClaudeCode\<close>.
\<close>

definition createMessage :: "Deps \<Rightarrow> ClaudeCodeMessage list \<Rightarrow> StreamRun" where
  "createMessage d claudeProcess = consume d initialState claudeProcess"

definition usageChunks :: "ApiStreamChunk list \<Rightarrow> ApiStreamUsageChunk list" where
  "usageChunks chunks = concat (map (\<lambda>c. case c of UsageChunk u \<Rightarrow> [u] | _ \<Rightarrow> []) chunks)"

definition isResult :: "ClaudeCodeMessage \<Rightarrow> bool" where
  "isResult m = (case m of ResultMessage _ \<Rightarrow> True | _ \<Rightarrow> False)"

definition isInit :: "ClaudeCodeMessage \<Rightarrow> bool" where
  "isInit m = (case m of SystemInit _ \<Rightarrow> True | _ \<Rightarrow> False)"

definition reportedCosts :: "ClaudeCodeMessage list \<Rightarrow> real list" where
  "reportedCosts ms = concat (map (\<lambda>m. case m of ResultMessage c \<Rightarrow> [c] | _ \<Rightarrow> []) ms)"


section \<open>Concrete hosts for the closed theorems\<close>

text \<open>
  A macOS desktop host whose only keybindings file holds one rule for the command
  \<open>X\<close>; \<open>path.join\<close> is taken as joining with a slash, which is what it does on
  these arguments.
\<close>

definition sampleJoin :: "string list \<Rightarrow> string" where
  "sampleJoin parts = join ''/'' parts"

definition noVariable :: "string \<Rightarrow> string option" where
  "noVariable v = None"

definition noDirectory :: "string \<Rightarrow> Dirent list option" where
  "noDirectory p = None"

definition userFile :: string where
  "userFile = ''/Users/test/Library/Application Support/Code/User/keybindings.json''"

definition profilesDir :: string where
  "profilesDir = ''/Users/test/Library/Application Support/Code/User/profiles''"

definition profileFile :: string where
  "profileFile = ''/Users/test/Library/Application Support/Code/User/profiles/p1/keybindings.json''"

definition onlyUserFile :: "string \<Rightarrow> Stats option" where
  "onlyUserFile p = (if p = userFile then Some \<lparr>isFile = True, mtimeMs = 1000\<rparr> else None)"

definition bothFiles :: "string \<Rightarrow> Stats option" where
  "bothFiles p =
     (if p = userFile then Some \<lparr>isFile = True, mtimeMs = 1000\<rparr>
      else if p = profileFile then Some \<lparr>isFile = True, mtimeMs = 2000\<rparr>
      else None)"

definition oneProfile :: "string \<Rightarrow> Dirent list option" where
  "oneProfile p = (if p = profilesDir then Some [\<lparr>name = ''p1'', isDirectory = True\<rparr>] else None)"

definition userText :: string where
  \<open>userText = ''[ { "key": "cmd+shift+i", "command": "X" }, ]''\<close>

definition userRule :: KeybindingEntry where
  "userRule = \<lparr>key = Some ''cmd+shift+i'', command = Some ''X'', when_clause = None\<rparr>"

definition sampleRead :: "string \<Rightarrow> string option" where
  "sampleRead p = (if p = userFile then Some userText else None)"

definition sampleParse :: "string \<Rightarrow> json5 option" where
  "sampleParse t = (if t = userText then Some (JArray [userRule]) else None)"

definition sampleHost :: Host where
  "sampleHost =
     \<lparr>appName = ''Visual Studio Code'', remoteName = None, uiKind = Desktop,
      platform = ''darwin'', process_env = noVariable, homedir = ''/Users/test'',
      path_join = sampleJoin, readdir = noDirectory, stat_scan = onlyUserFile,
      stat_sort = onlyUserFile, readFile = sampleRead, JSON5_parse = sampleParse\<rparr>"

text \<open>
  The same host with one profile directory, whose keybindings file is there when the
  candidates are scanned and gone when they are stat'ed again for sorting.
\<close>

definition raceHost :: Host where
  "raceHost = sampleHost\<lparr>readdir := oneProfile, stat_scan := bothFiles\<rparr>"

text \<open>A host with no keybindings file at all.\<close>

definition noFile :: "string \<Rightarrow> Stats option" where
  "noFile p = None"

definition bareHost :: Host where
  "bareHost = sampleHost\<lparr>stat_scan := noFile\<rparr>"

definition defaultRule :: KeybindingEntry where
  "defaultRule = \<lparr>key = Some ''cmd+i'', command = Some ''X'', when_clause = None\<rparr>"

definition sampleContext :: ExtensionContext where
  "sampleContext =
     \<lparr>packageJSON = Some \<lparr>contributes = Some \<lparr>keybindings = Some
        [defaultRule,
         \<lparr>key = Some ''ctrl+shift+g'', command = Some ''Y'', when_clause = None\<rparr>]\<rparr>\<rparr>\<rparr>"


section \<open>Concrete streams and settings for the closed theorems\<close>

text \<open>The messages of the tests in \<open>claude-code.spec.ts\<close>.\<close>

definition helloMessage :: AssistantMessage where
  "helloMessage =
     \<lparr>stop_reason = None, content = [TextBlock ''Hello there!''],
      usage = \<lparr>input_tokens = 10, output_tokens = 20, cache_read_input_tokens = Some 5,
               cache_creation_input_tokens = Some 3\<rparr>\<rparr>"

definition errorText :: string where
  \<open>errorText = ''API Error: 400 {"error":{"message":"Invalid model name"}}''\<close>

definition errorPayload :: string where
  \<open>errorPayload = ''{"error":{"message":"Invalid model name"}}''\<close>

definition errorMessage :: AssistantMessage where
  "errorMessage =
     \<lparr>stop_reason = Some ''stop_sequence'', content = [TextBlock errorText],
      usage = \<lparr>input_tokens = 10, output_tokens = 20, cache_read_input_tokens = None,
               cache_creation_input_tokens = None\<rparr>\<rparr>"

definition parsePayload :: "string \<Rightarrow> json option" where
  "parsePayload s =
     (if s = errorPayload
      then Some (JObj [(''error'', JObj [(''message'', JStr ''Invalid model name'')])])
      else None)"

definition sampleDeps :: Deps where
  "sampleDeps = \<lparr>JSON_parse = parsePayload, apiKeyModelPlanMismatch = ''(hint)''\<rparr>"








definition plainErrorMessage :: AssistantMessage where
  \<comment> \<open>the same text in a message whose \<open>stop_reason\<close> is \<open>null\<close>\<close>
  "plainErrorMessage =
     \<lparr>stop_reason = None, content = [TextBlock errorText],
      usage = \<lparr>input_tokens = 10, output_tokens = 20, cache_read_input_tokens = None,
               cache_creation_input_tokens = None\<rparr>\<rparr>"



section \<open>Formatting and label resolution\<close>

lemmas format_defs =
  prettyPrintKey_def formatChord_def normalizeKeyToken_def toLowerCase_def toUpperCase_def
  lower_char_def upper_char_def js_in_def js_get_def display_def macModifiers_def
  winLinuxModifiers_def specialKeys_def objectPrototypeKeys_def is_function_key_def
  is_digit_def

lemmas host_defs =
  sampleHost_def raceHost_def bareHost_def sampleContext_def userRule_def defaultRule_def
  sampleJoin_def noVariable_def noDirectory_def userFile_def profilesDir_def profileFile_def
  onlyUserFile_def bothFiles_def oneProfile_def userText_def sampleRead_def sampleParse_def
  noFile_def

lemmas config_defs =
  readUserKeybindings_def canReadLocalKeybindings_def getKeybindingsCandidates_def
  enumerateProfileKeybindings_def profileCandidates_def getUserDataBaseDir_def
  productDirName_def readJSON5File_def truthy_def or_else_def startsWith_def
  getDefaultKeybindings_def toLowerCase_def lower_char_def

lemma join_chords:
  "prettyPrintKey raw p =
     join '', '' (map (formatChord p) (filter (\<lambda>s. s \<noteq> []) (split_on CHR '' '' raw)))"
proof (cases "filter (\<lambda>s. s \<noteq> []) (split_on CHR '' '' raw)")
  case Nil
  then show ?thesis by (simp add: prettyPrintKey_def)
next
  case (Cons c cs)
  then show ?thesis by (cases cs) (simp_all add: prettyPrintKey_def)
qed

text \<open>
  C4. The formatter on the spec's four examples, the last two on every platform, and
  the joining rule: the tokens of a chord are joined with \<open>+\<close> and the chords with
  a comma and a space.
\<close>

theorem prettyPrintKey_examples:
  "prettyPrintKey ''cmd+i'' ''darwin'' = ''Cmd+I''
   \<and> prettyPrintKey ''cmd+i'' ''win32'' = ''Ctrl+I''
   \<and> (\<forall>p. prettyPrintKey ''ctrl+shift+g'' p = ''Ctrl+Shift+G'')
   \<and> (\<forall>p. prettyPrintKey ''ctrl+k ctrl+s'' p = ''Ctrl+K, Ctrl+S'')
   \<and> (\<forall>raw p. prettyPrintKey raw p =
         join '', '' (map (\<lambda>chord. join ''+'' (map (\<lambda>t. display (normalizeKeyToken t p))
                                                   (split_on CHR ''+'' chord)))
                        (filter (\<lambda>s. s \<noteq> []) (split_on CHR '' '' raw))))"
proof -
  have a: "prettyPrintKey ''cmd+i'' ''darwin'' = ''Cmd+I''"
    by (simp add: format_defs)
  have b: "prettyPrintKey ''cmd+i'' ''win32'' = ''Ctrl+I''"
    by (simp add: format_defs)
  have c: "prettyPrintKey ''ctrl+shift+g'' p = ''Ctrl+Shift+G''" for p
    by (cases "p = ''darwin''") (simp_all add: format_defs)
  have d: "prettyPrintKey ''ctrl+k ctrl+s'' p = ''Ctrl+K, Ctrl+S''" for p
    by (cases "p = ''darwin''") (simp_all add: format_defs)
  have e: "prettyPrintKey raw p =
         join '', '' (map (\<lambda>chord. join ''+'' (map (\<lambda>t. display (normalizeKeyToken t p))
                                                   (split_on CHR ''+'' chord)))
                        (filter (\<lambda>s. s \<noteq> []) (split_on CHR '' '' raw)))" for raw p
  proof -
    have "formatChord p = (\<lambda>chord. join ''+'' (map (\<lambda>t. display (normalizeKeyToken t p))
                                                   (split_on CHR ''+'' chord)))"
      by (rule ext) (simp add: formatChord_def comp_def)
    then show ?thesis using join_chords [of raw p] by simp
  qed
  from a b c d e show ?thesis by blast
qed






section \<open>Totality of the formatter, and the keys it inherits\<close>

lemma lower_char_not_upper: "lower_char c \<notin> set ''ABCDEFGHIJKLMNOPQRSTUVWXYZ''"
  by (simp add: lower_char_def)

lemma toLowerCase_no_upper:
  "c \<in> set ''ABCDEFGHIJKLMNOPQRSTUVWXYZ'' \<Longrightarrow> c \<notin> set (toLowerCase t)"
  using lower_char_not_upper by (auto simp: toLowerCase_def)

lemma lowered_inherited:
  assumes "toLowerCase t \<in> set objectPrototypeKeys"
  shows "toLowerCase t = ''constructor'' \<or> toLowerCase t = ''__proto__''"
proof -
  have G: "CHR ''G'' \<notin> set (toLowerCase t)" by (rule toLowerCase_no_upper) simp
  have S: "CHR ''S'' \<notin> set (toLowerCase t)" by (rule toLowerCase_no_upper) simp
  have O: "CHR ''O'' \<notin> set (toLowerCase t)" by (rule toLowerCase_no_upper) simp
  have P: "CHR ''P'' \<notin> set (toLowerCase t)" by (rule toLowerCase_no_upper) simp
  have I: "CHR ''I'' \<notin> set (toLowerCase t)" by (rule toLowerCase_no_upper) simp
  have L: "CHR ''L'' \<notin> set (toLowerCase t)" by (rule toLowerCase_no_upper) simp
  from assms G S O P I L show ?thesis
    by (auto simp: objectPrototypeKeys_def)
qed

lemma normalizeKeyToken_string:
  assumes "toLowerCase token \<noteq> ''constructor''" and "toLowerCase token \<noteq> ''__proto__''"
  shows "\<exists>s. normalizeKeyToken token p = JString s"
proof -
  have n: "toLowerCase token \<notin> set objectPrototypeKeys"
    using assms lowered_inherited by blast
  show ?thesis
    using n by (auto simp: normalizeKeyToken_def js_in_def js_get_def Let_def split: option.splits)
qed

text \<open>
  C10. No step of \<open>normalizeKeyToken\<close> throws, and by \<open>normalizeKeyToken_string\<close>
  it returns a string for every token but two. For a token that lower-cases to
  \<open>constructor\<close> or \<open>__proto__\<close> the test \<open>normalized in modifierMap\<close> succeeds
  through the prototype chain and the function returns the inherited member, which is
  not a string; \<open>prettyPrintKey\<close> then prints that member's source text.
\<close>
theorem normalizeKeyToken_inherited_key:
  "normalizeKeyToken ''constructor'' p = JInherited ''constructor''
   \<and> normalizeKeyToken ''__proto__'' p = JInherited ''__proto__''
   \<and> prettyPrintKey ''ctrl+constructor'' ''linux'' = ''Ctrl+function Object() { [native code] }''"
proof -
  have a: "normalizeKeyToken ''constructor'' p = JInherited ''constructor''"
    by (cases "p = ''darwin''") (simp_all add: format_defs)
  have b: "normalizeKeyToken ''__proto__'' p = JInherited ''__proto__''"
    by (cases "p = ''darwin''") (simp_all add: format_defs)
  have c: "prettyPrintKey ''ctrl+constructor'' ''linux'' = ''Ctrl+function Object() { [native code] }''"
    by (simp add: format_defs)
  from a b c show ?thesis by blast
qed

section \<open>Reading the user's rules\<close>

lemma remote_gives_empty:
  "\<not> canReadLocalKeybindings h \<Longrightarrow> readUserKeybindings h = Inr []"
  by (simp add: readUserKeybindings_def)

lemma reads_first_list:
  "canReadLocalKeybindings h \<Longrightarrow> getKeybindingsCandidates h = Inr cs
   \<Longrightarrow> readUserKeybindings h = Inr (firstRules h cs)"
  by (simp add: readUserKeybindings_def)

lemma firstRules_skips:
  "readJSON5File h p = None \<or> readJSON5File h p = Some JOther
   \<Longrightarrow> firstRules h (p # ps) = firstRules h ps"
  by auto

lemma firstRules_takes:
  "readJSON5File h p = Some (JArray rules) \<Longrightarrow> firstRules h (p # ps) = rules"
  by simp

lemma stat_all_stable:
  "list_all (\<lambda>p. stat_sort h p \<noteq> None) ps \<Longrightarrow> \<exists>r. stat_all h ps = Inr r"
  by (induction ps) auto

lemma sorted_or_same:
  assumes "list_all (\<lambda>p. stat_sort h p \<noteq> None) existing"
  shows "\<exists>cs. (if length existing > 1 then
               (case stat_all h existing of
                  Inl e \<Rightarrow> Inl e
                | Inr stats \<Rightarrow> Inr (map fst (sort_key (\<lambda>s. - mtimeMs (snd s)) stats)))
             else Inr existing) = Inr cs"
  using stat_all_stable [OF assms] by auto

lemma candidates_when_stable:
  assumes "stat_sort h = stat_scan h"
  shows "\<exists>cs. enumerateProfileKeybindings h userDir = Inr cs"
  unfolding enumerateProfileKeybindings_def Let_def
  by (rule sorted_or_same) (use assms in \<open>auto simp: list_all_iff split: option.splits\<close>)

lemma getKeybindingsCandidates_when_stable:
  "stat_sort h = stat_scan h \<Longrightarrow> \<exists>cs. getKeybindingsCandidates h = Inr cs"
  unfolding getKeybindingsCandidates_def Let_def
  by (simp add: candidates_when_stable)

lemma never_throws_when_stable:
  assumes "stat_sort h = stat_scan h"
  shows "\<exists>rules. readUserKeybindings h = Inr rules"
proof -
  obtain cs where "getKeybindingsCandidates h = Inr cs"
    using getKeybindingsCandidates_when_stable [OF assms] by blast
  then show ?thesis by (simp add: readUserKeybindings_def)
qed


text \<open>
  C7. On a host that can read local keybindings, \<open>readUserKeybindings\<close> rejects
  when a candidate that was there in the first pass of \<open>fs.stat\<close> is gone in the
  second, the one outside every \<open>try\<close>. Apart from that (lemmas
  \<open>never_throws_when_stable\<close>, \<open>remote_gives_empty\<close>, \<open>reads_first_list\<close>,
  \<open>firstRules_skips\<close>, \<open>firstRules_takes\<close>) it behaves as the claim says.
\<close>
theorem readUserKeybindings_rejects:
  "canReadLocalKeybindings raceHost
   \<and> getKeybindingsCandidates raceHost = Inl (FsError profileFile)
   \<and> readUserKeybindings raceHost = Inl (FsError profileFile)"
  by (simp add: config_defs host_defs)

section \<open>Errors while resolving a label\<close>

lemma no_override_is_default:
  assumes "readUserKeybindings h = Inr rules"
    and "findFirstBindingForCommand rules commandId = None"
  shows "fst (getCurrentKeybindingLabel h context commandId)
         = noOverrideLabel context (platform h) commandId"
  using assms
  by (auto simp: getCurrentKeybindingLabel_def rawKeyOf_def noOverrideLabel_def truthy_def
        or_else_def Let_def split: option.splits)





section \<open>The batch resolver\<close>

lemma labelsLoop_dom:
  "dom (fst (labelsLoop h context ids acc)) = dom (fst acc) \<union> (set ids - {''__proto__''})"
  by (induction ids arbitrary: acc) (auto simp: obj_set_def Let_def split: if_splits)

lemma labelsLoop_keeps:
  "k \<notin> set ids \<Longrightarrow> fst (labelsLoop h context ids acc) k = fst acc k"
  by (induction ids arbitrary: acc) (auto simp: obj_set_def Let_def)

lemma labelsLoop_lookup:
  "k \<in> set ids \<Longrightarrow> k \<noteq> ''__proto__''
   \<Longrightarrow> fst (labelsLoop h context ids acc) k = Some (fst (getCurrentKeybindingLabel h context k))"
proof (induction ids arbitrary: acc)
  case Nil
  then show ?case by simp
next
  case (Cons c cs)
  show ?case
  proof (cases "k \<in> set cs")
    case True
    with Cons show ?thesis by (simp add: Let_def)
  next
    case False
    with Cons.prems have "c = k" by simp
    with False Cons.prems show ?thesis
      by (simp add: Let_def labelsLoop_keeps obj_set_def)
  qed
qed

lemma batch_keys:
  "dom (fst (getKeybindingLabels h context ids)) = set ids - {''__proto__''}"
  by (simp add: getKeybindingLabels_def labelsLoop_dom)

lemma batch_lookup:
  "k \<in> set ids \<Longrightarrow> k \<noteq> ''__proto__''
   \<Longrightarrow> fst (getKeybindingLabels h context ids) k = Some (fst (getCurrentKeybindingLabel h context k))"
  by (simp add: getKeybindingLabels_def labelsLoop_lookup)

lemma unknown_command_undefined:
  assumes "readUserKeybindings h = Inr rules"
    and "list_all (\<lambda>r. command r \<noteq> Some commandId) rules"
    and "list_all (\<lambda>r. command r \<noteq> Some commandId) (getDefaultKeybindings context)"
  shows "fst (getCurrentKeybindingLabel h context commandId) = None"
proof -
  have u: "findFirstBindingForCommand rules commandId = None"
    using assms(2) by (auto simp: findFirstBindingForCommand_def find_None_iff list_all_iff)
  have d: "find (\<lambda>k. command k = Some commandId) (getDefaultKeybindings context) = None"
    using assms(3) by (auto simp: find_None_iff list_all_iff)
  show ?thesis
    using no_override_is_default [OF assms(1) u] d by (simp add: noOverrideLabel_def)
qed

text \<open>
  C6. Each requested id other than \<open>__proto__\<close> is a key of the result, mapped to
  its own label (\<open>batch_keys\<close>, \<open>batch_lookup\<close>), and an id no rule names resolves
  to \<open>undefined\<close> (\<open>unknown_command_undefined\<close>). The id \<open>__proto__\<close> is lost:
  asked for \<open>X\<close> and \<open>__proto__\<close>, the result has the single key \<open>X\<close>.
\<close>
theorem batch_drops_proto_key:
  "dom (fst (getKeybindingLabels bareHost sampleContext [''X'', ''__proto__''])) = {''X''}
   \<and> fst (getKeybindingLabels bareHost sampleContext [''X'', ''__proto__'']) ''__proto__'' = None"
  by (simp add: getKeybindingLabels_def obj_set_def Let_def)


section \<open>The stream of createMessage\<close>

lemmas stream_defs =
  createMessage_def initialState_def emit_def checkApiError_def addUsage_def num_or_zero_def
  usageChunks_def reportedCosts_def isResult_def isInit_def startsWith_def

lemmas stream_samples =
  helloMessage_def errorMessage_def plainErrorMessage_def errorText_def errorPayload_def
  parsePayload_def sampleDeps_def

lemma usageChunks_append: "usageChunks (xs @ ys) = usageChunks xs @ usageChunks ys"
  by (simp add: usageChunks_def)

lemma usageChunks_blocks: "usageChunks (concat (map blockChunks bs)) = []"
proof (induction bs)
  case Nil
  then show ?case by (simp add: usageChunks_def)
next
  case (Cons b bs)
  then show ?case by (cases b) (simp_all add: usageChunks_append, simp_all add: usageChunks_def)
qed

lemma yielded_emit: "yielded (emit cs es r) = cs @ yielded r"
  by (simp add: emit_def)

lemma thrown_emit: "thrown (emit cs es r) = thrown r"
  by (simp add: emit_def)

lemma no_result_no_usage:
  "list_all (\<lambda>m. \<not> isResult m) ms \<Longrightarrow> usageChunks (yielded (consume d st ms)) = []"
proof (induction ms arbitrary: st)
  case Nil
  then show ?case by (simp add: usageChunks_def)
next
  case (Cons m ms)
  then show ?case
    by (cases m)
       (auto simp: yielded_emit usageChunks_append usageChunks_blocks isResult_def
          split: option.splits,
        simp_all add: usageChunks_def)
qed

text \<open>
  C1. The loop yields a usage chunk only when a result message arrives, and nothing
  follows the loop: a stream without a result message yields no usage chunk
  (\<open>no_result_no_usage\<close>). On the stream of the test "should calculate cost even
  when result chunk is missing" the text chunk is all that is yielded, and on the
  stream with the init message alone nothing is; the tests expect a usage chunk at the
  end of both.
\<close>
theorem stream_end_without_result:
  "createMessage sampleDeps [SystemInit ''/login managed key'', Assistant helloMessage]
     = \<lparr>yielded = [TextChunk ''Hello there!''], logged = [], thrown = None\<rparr>
   \<and> createMessage sampleDeps [SystemInit ''/login managed key'']
     = \<lparr>yielded = [], logged = [], thrown = None\<rparr>"
  by (simp add: stream_defs stream_samples)

lemma costs_after_init:
  "list_all (\<lambda>m. \<not> isInit m) ms \<Longrightarrow>
   map totalCost (usageChunks (yielded (consume d st ms)))
   = take (length (usageChunks (yielded (consume d st ms))))
       (map (\<lambda>c. Some (if isPaidUsage st then c else 0)) (reportedCosts ms))"
proof (induction ms arbitrary: st)
  case Nil
  then show ?case by (simp add: usageChunks_def)
next
  case (Cons m ms)
  show ?case
  proof (cases m)
    case (StringChunk s)
    with Cons show ?thesis
      by (simp add: yielded_emit usageChunks_append reportedCosts_def)
         (simp add: usageChunks_def)
  next
    case (SystemInit k)
    with Cons.prems show ?thesis by (simp add: isInit_def)
  next
    case (Assistant a)
    show ?thesis
    proof (cases "checkApiError d a")
      case None
      with Assistant Cons show ?thesis
        by (simp add: yielded_emit usageChunks_append usageChunks_blocks reportedCosts_def)
    next
      case (Some e)
      with Assistant show ?thesis by (simp add: usageChunks_def)
    qed
  next
    case (ResultMessage c)
    with Cons show ?thesis
      by (simp add: yielded_emit usageChunks_append reportedCosts_def Let_def)
         (simp add: usageChunks_def)
  next
    case OtherMessage
    with Cons show ?thesis by (simp add: reportedCosts_def)
  qed
qed

lemma usage_count:
  "thrown (consume d st ms) = None \<Longrightarrow>
   length (usageChunks (yielded (consume d st ms))) = length (reportedCosts ms)"
proof (induction ms arbitrary: st)
  case Nil
  then show ?case by (simp add: usageChunks_def reportedCosts_def)
next
  case (Cons m ms)
  then show ?case
    by (cases m)
       (auto simp: yielded_emit thrown_emit usageChunks_append usageChunks_blocks
          reportedCosts_def Let_def split: option.splits,
        simp_all add: usageChunks_def)
qed

lemma costs_from_init:
  "list_all (\<lambda>m. \<not> isResult m) pre \<Longrightarrow> list_all (\<lambda>m. \<not> isInit m) rest \<Longrightarrow>
   map totalCost (usageChunks (yielded (consume d st (pre @ SystemInit k # rest))))
   = take (length (usageChunks (yielded (consume d st (pre @ SystemInit k # rest)))))
       (map (\<lambda>c. Some (if k \<noteq> ''none'' then c else 0)) (reportedCosts rest))"
proof (induction pre arbitrary: st)
  case Nil
  then show ?case
    using costs_after_init [of rest d "st\<lparr>isPaidUsage := (k \<noteq> ''none'')\<rparr>"] by simp
next
  case (Cons m pre)
  show ?case
  proof (cases m)
    case (StringChunk s)
    with Cons show ?thesis
      by (simp add: yielded_emit usageChunks_append) (simp add: usageChunks_def)
  next
    case (SystemInit k')
    with Cons show ?thesis by simp
  next
    case (Assistant a)
    show ?thesis
    proof (cases "checkApiError d a")
      case None
      with Assistant Cons show ?thesis
        by (simp add: yielded_emit usageChunks_append usageChunks_blocks)
    next
      case (Some e)
      with Assistant show ?thesis by (simp add: usageChunks_def)
    qed
  next
    case (ResultMessage c)
    with Cons.prems show ?thesis by (simp add: isResult_def)
  next
    case OtherMessage
    with Cons show ?thesis by simp
  qed
qed

lemma reportedCosts_skip:
  "list_all (\<lambda>m. \<not> isResult m) pre \<Longrightarrow> reportedCosts (pre @ SystemInit k # rest) = reportedCosts rest"
proof (induction pre)
  case Nil
  then show ?case by (simp add: reportedCosts_def)
next
  case (Cons m pre)
  then show ?case by (cases m) (simp_all add: reportedCosts_def isResult_def)
qed

text \<open>
  C2. Take the stream's last init message, with no result message before it. If its
  \<open>apiKeySource\<close> is \<open>none\<close>, every usage chunk yielded has \<open>totalCost\<close> 0,
  whatever the result messages report. Otherwise the usage chunks carry, in order, the
  costs the result messages report: all of them when the stream ends normally, and the
  first of them when an error cuts it short.
\<close>
theorem init_marker_decides_cost:
  assumes "list_all (\<lambda>m. \<not> isResult m) pre" and "list_all (\<lambda>m. \<not> isInit m) rest"
  shows "(apiKeySource = ''none'' \<longrightarrow>
            list_all (\<lambda>u. totalCost u = Some 0)
              (usageChunks (yielded (createMessage d (pre @ SystemInit apiKeySource # rest)))))
       \<and> (apiKeySource \<noteq> ''none'' \<longrightarrow>
            thrown (createMessage d (pre @ SystemInit apiKeySource # rest)) = None \<longrightarrow>
            map totalCost (usageChunks (yielded (createMessage d (pre @ SystemInit apiKeySource # rest))))
            = map Some (reportedCosts rest))
       \<and> (apiKeySource \<noteq> ''none'' \<longrightarrow>
            map totalCost (usageChunks (yielded (createMessage d (pre @ SystemInit apiKeySource # rest))))
            = take (length (usageChunks (yielded (createMessage d (pre @ SystemInit apiKeySource # rest)))))
                (map Some (reportedCosts rest)))"
proof -
  let ?us = "usageChunks (yielded (createMessage d (pre @ SystemInit apiKeySource # rest)))"
  have c: "map totalCost ?us
           = take (length ?us)
               (map (\<lambda>c. Some (if apiKeySource \<noteq> ''none'' then c else 0)) (reportedCosts rest))"
    unfolding createMessage_def using costs_from_init [OF assms] .
  have free: "list_all (\<lambda>u. totalCost u = Some 0) ?us" if "apiKeySource = ''none''"
  proof -
    from c that have "map totalCost ?us = take (length ?us) (map (\<lambda>c. Some 0) (reportedCosts rest))"
      by simp
    then have "\<forall>x \<in> set (map totalCost ?us). x = Some 0"
      by (metis (no_types, lifting) in_set_takeD imageE set_map)
    then show ?thesis by (simp add: list_all_iff)
  qed
  have paid: "map totalCost ?us = take (length ?us) (map Some (reportedCosts rest))"
    if "apiKeySource \<noteq> ''none''"
    using c that by simp
  have full: "map totalCost ?us = map Some (reportedCosts rest)"
    if "apiKeySource \<noteq> ''none''"
      and "thrown (createMessage d (pre @ SystemInit apiKeySource # rest)) = None"
  proof -
    have "length ?us = length (reportedCosts (pre @ SystemInit apiKeySource # rest))"
      using that(2) unfolding createMessage_def by (rule usage_count)
    then have "length ?us = length (reportedCosts rest)"
      by (simp add: reportedCosts_skip [OF assms(1)])
    with paid [OF that(1)] show ?thesis by simp
  qed
  from free paid full show ?thesis by blast
qed

theorem init_marker_decides_cost_witness:
  "list_all (\<lambda>m. \<not> isResult m) [StringChunk ''hi'']
   \<and> list_all (\<lambda>m. \<not> isInit m) [Assistant helloMessage, ResultMessage (5 / 100)]
   \<and> length (usageChunks (yielded (createMessage sampleDeps
        ([StringChunk ''hi''] @ SystemInit ''none'' # [Assistant helloMessage, ResultMessage (5 / 100)]))))
     = 1
   \<and> list_all (\<lambda>u. totalCost u = Some 0) (usageChunks (yielded (createMessage sampleDeps
        ([StringChunk ''hi''] @ SystemInit ''none'' # [Assistant helloMessage, ResultMessage (5 / 100)]))))
   \<and> thrown (createMessage sampleDeps
        ([StringChunk ''hi''] @ SystemInit ''/login managed key'' # [Assistant helloMessage, ResultMessage (5 / 100)]))
     = None
   \<and> map totalCost (usageChunks (yielded (createMessage sampleDeps
        ([StringChunk ''hi''] @ SystemInit ''/login managed key'' # [Assistant helloMessage, ResultMessage (5 / 100)]))))
     = [Some (5 / 100)]"
proof -
  have h1: "list_all (\<lambda>m. \<not> isResult m) [StringChunk ''hi'']"
    by (simp add: isResult_def)
  have h2: "list_all (\<lambda>m. \<not> isInit m) [Assistant helloMessage, ResultMessage (5 / 100)]"
    by (simp add: isInit_def)
  have t: "thrown (createMessage sampleDeps
        ([StringChunk ''hi''] @ SystemInit ''/login managed key'' # [Assistant helloMessage, ResultMessage (5 / 100)]))
     = None"
    by (simp add: stream_defs stream_samples)
  have n: "length (usageChunks (yielded (createMessage sampleDeps
        ([StringChunk ''hi''] @ SystemInit ''none'' # [Assistant helloMessage, ResultMessage (5 / 100)]))))
     = 1"
    by (simp add: stream_defs stream_samples)
  have k: "''/login managed key'' \<noteq> ''none''" by simp
  have r: "reportedCosts [Assistant helloMessage, ResultMessage (5 / 100)] = [5 / 100]"
    by (simp add: reportedCosts_def)
  from init_marker_decides_cost [OF h1 h2, of "''none''" sampleDeps]
  have free: "list_all (\<lambda>u. totalCost u = Some 0) (usageChunks (yielded (createMessage sampleDeps
        ([StringChunk ''hi''] @ SystemInit ''none'' # [Assistant helloMessage, ResultMessage (5 / 100)]))))"
    by blast
  from init_marker_decides_cost [OF h1 h2, of "''/login managed key''" sampleDeps] k t r
  have paid: "map totalCost (usageChunks (yielded (createMessage sampleDeps
        ([StringChunk ''hi''] @ SystemInit ''/login managed key'' # [Assistant helloMessage, ResultMessage (5 / 100)]))))
     = [Some (5 / 100)]"
    by simp
  from h1 h2 n free t paid show ?thesis by blast
qed


section \<open>Errors reported by the upstream process\<close>

lemma consume_after_throw:
  "thrown (consume d st pre) \<noteq> None \<Longrightarrow> consume d st (pre @ ms) = consume d st pre"
proof (induction pre arbitrary: st)
  case Nil
  then show ?case by simp
next
  case (Cons m pre)
  then show ?case
    by (cases m) (auto simp: thrown_emit Let_def split: option.splits)
qed

lemma consume_throws_at:
  "thrown (consume d st pre) = None \<Longrightarrow> checkApiError d a = Some e \<Longrightarrow>
   thrown (consume d st (pre @ Assistant a # rest)) = Some e
   \<and> yielded (consume d st (pre @ Assistant a # rest)) = yielded (consume d st pre)
   \<and> logged (consume d st (pre @ Assistant a # rest)) = logged (consume d st pre)"
proof (induction pre arbitrary: st)
  case Nil
  then show ?case by simp
next
  case (Cons m pre)
  then show ?case
    by (cases m) (auto simp: emit_def Let_def split: option.splits)
qed

lemma checkApiError_text:
  "stop_reason a \<noteq> None \<Longrightarrow> content a = TextBlock text # blocks \<Longrightarrow> startsWith text ''API Error''
   \<Longrightarrow> checkApiError d a = Some (apiError d text)"
  by (simp add: checkApiError_def)

lemma checkApiError_null_stop: "stop_reason a = None \<Longrightarrow> checkApiError d a = None"
  by (simp add: checkApiError_def)

lemma apiError_unparsed:
  "attemptParse d (slice_from text (indexOf text CHR ''{'')) = None \<Longrightarrow> apiError d text = Error text"
  by (simp add: apiError_def Let_def)

lemma apiError_message:
  assumes "attemptParse d (slice_from text (indexOf text CHR ''{'')) = Some j"
    and "get_prop j ''error'' = Some inner"
    and "get_prop inner ''message'' = Some (JStr msg)"
  shows "apiError d text =
           (if str_includes msg ''Invalid model name''
            then Error (text @ [CHR 0x0A, CHR 0x0A] @ apiKeyModelPlanMismatch d)
            else Error (slice_from text (indexOf text CHR ''{'')))"
proof -
  from assms(2) obtain kvs where j: "j = JObj kvs"
    by (cases j) (simp_all add: get_prop_def)
  from assms(3) obtain kvs' where i: "inner = JObj kvs'"
    by (cases inner) (simp_all add: get_prop_def)
  show ?thesis
    using assms j i
    by (simp add: apiError_def Let_def js_truthy_def messageIncludes_def)
qed

text \<open>
  C9, as stated, fails: the error check runs only for a message whose
  \<open>stop_reason\<close> is not \<open>null\<close>. With \<open>stop_reason\<close> \<open>null\<close> a first text
  block that begins with \<open>API Error\<close> (and names the invalid model) is yielded as
  ordinary text and the stream ends normally.
\<close>
theorem api_error_text_passes:
  "content plainErrorMessage = [TextBlock errorText]
   \<and> startsWith errorText ''API Error''
   \<and> str_includes errorText ''Invalid model name''
   \<and> createMessage sampleDeps [Assistant plainErrorMessage]
       = \<lparr>yielded = [TextChunk errorText], logged = [], thrown = None\<rparr>"
  by (simp add: stream_defs stream_samples)

text \<open>
  C9, amended. Let an assistant message have a \<open>stop_reason\<close> other than \<open>null\<close>
  and a first content block that is text beginning with \<open>API Error\<close>. Every stream
  that contains it rejects. If nothing before it has thrown, the iteration rejects at
  this message: the chunks yielded are those of the messages before it, and the error
  is the one built from the text. That error carries the text alone when the payload
  from the first brace does not parse, the text and the hint when the parsed payload's
  \<open>error.message\<close> is a string that includes \<open>Invalid model name\<close>, and the
  payload when that string does not include it.
\<close>
theorem api_error_rejects:
  assumes "stop_reason message \<noteq> None"
    and "content message = TextBlock text # blocks"
    and "startsWith text ''API Error''"
  shows "thrown (createMessage d (pre @ Assistant message # rest)) \<noteq> None
       \<and> (thrown (createMessage d pre) = None \<longrightarrow>
            thrown (createMessage d (pre @ Assistant message # rest)) = Some (apiError d text)
            \<and> yielded (createMessage d (pre @ Assistant message # rest)) = yielded (createMessage d pre))
       \<and> (attemptParse d (slice_from text (indexOf text CHR ''{'')) = None \<longrightarrow>
            apiError d text = Error text)
       \<and> (\<forall>j inner msg.
            attemptParse d (slice_from text (indexOf text CHR ''{'')) = Some j \<longrightarrow>
            get_prop j ''error'' = Some inner \<longrightarrow>
            get_prop inner ''message'' = Some (JStr msg) \<longrightarrow>
            apiError d text =
              (if str_includes msg ''Invalid model name''
               then Error (text @ [CHR 0x0A, CHR 0x0A] @ apiKeyModelPlanMismatch d)
               else Error (slice_from text (indexOf text CHR ''{''))))"
proof -
  have c: "checkApiError d message = Some (apiError d text)"
    using assms by (rule checkApiError_text)
  have a: "thrown (createMessage d (pre @ Assistant message # rest)) \<noteq> None"
  proof (cases "thrown (consume d initialState pre) = None")
    case True
    from consume_throws_at [OF True c] show ?thesis by (simp add: createMessage_def)
  next
    case False
    from consume_after_throw [OF False] False show ?thesis by (simp add: createMessage_def)
  qed
  have b: "thrown (createMessage d (pre @ Assistant message # rest)) = Some (apiError d text)
            \<and> yielded (createMessage d (pre @ Assistant message # rest)) = yielded (createMessage d pre)"
    if "thrown (createMessage d pre) = None"
    using consume_throws_at [OF _ c, of initialState pre rest] that
    by (simp add: createMessage_def)
  from a b apiError_unparsed apiError_message show ?thesis by blast
qed

theorem api_error_rejects_witness:
  "stop_reason errorMessage \<noteq> None
   \<and> content errorMessage = TextBlock errorText # []
   \<and> startsWith errorText ''API Error''
   \<and> thrown (createMessage sampleDeps []) = None
   \<and> attemptParse sampleDeps (slice_from errorText (indexOf errorText CHR ''{''))
       = Some (JObj [(''error'', JObj [(''message'', JStr ''Invalid model name'')])])
   \<and> thrown (createMessage sampleDeps ([] @ Assistant errorMessage # []))
       = Some (Error (errorText @ [CHR 0x0A, CHR 0x0A] @ ''(hint)''))
   \<and> yielded (createMessage sampleDeps ([] @ Assistant errorMessage # [])) = []"
proof -
  have h1: "stop_reason errorMessage \<noteq> None" by (simp add: errorMessage_def)
  have h2: "content errorMessage = TextBlock errorText # []" by (simp add: errorMessage_def)
  have h3: "startsWith errorText ''API Error''" by (simp add: startsWith_def errorText_def)
  have h4: "thrown (createMessage sampleDeps []) = None" by (simp add: createMessage_def)
  have y: "yielded (createMessage sampleDeps []) = []" by (simp add: createMessage_def)
  have p: "attemptParse sampleDeps (slice_from errorText (indexOf errorText CHR ''{''))
       = Some (JObj [(''error'', JObj [(''message'', JStr ''Invalid model name'')])])"
    by (simp add: attemptParse_def sampleDeps_def parsePayload_def errorPayload_def errorText_def
          slice_from_def indexOf_def)
  have g1: "get_prop (JObj [(''error'', JObj [(''message'', JStr ''Invalid model name'')])]) ''error''
            = Some (JObj [(''message'', JStr ''Invalid model name'')])"
    by (simp add: get_prop_def)
  have g2: "get_prop (JObj [(''message'', JStr ''Invalid model name'')]) ''message''
            = Some (JStr ''Invalid model name'')"
    by (simp add: get_prop_def)
  have i: "str_includes ''Invalid model name'' ''Invalid model name''"
    by (simp add: startsWith_def)
  have hint: "apiKeyModelPlanMismatch sampleDeps = ''(hint)''" by (simp add: sampleDeps_def)
  from api_error_rejects [OF h1 h2 h3, of sampleDeps "[]" "[]"] h4 y p g1 g2 i hint
  have "thrown (createMessage sampleDeps ([] @ Assistant errorMessage # []))
          = Some (Error (errorText @ [CHR 0x0A, CHR 0x0A] @ ''(hint)''))
        \<and> yielded (createMessage sampleDeps ([] @ Assistant errorMessage # [])) = []"
    by (metis (no_types, lifting))
  with h1 h2 h3 h4 p show ?thesis by blast
qed


section \<open>Provider detection and the selected model\<close>
















end
